theory Spec2Isabelle
  imports Main "HOL-Library.AList" "HOL-Library.Multiset" "HOL-Library.Sublist"
begin

section \<open>Data model (src/domain.ts)\<close>

text \<open>
  The interfaces of \<^verbatim>\<open>domain.ts\<close> as records. A TypeScript \<^verbatim>\<open>number\<close> that holds an
  identifier or a count is an \<^typ>\<open>int\<close>; a length is a \<^typ>\<open>nat\<close>. The field \<^verbatim>\<open>id\<close> of
  \<^verbatim>\<open>Repository\<close> is called \<open>id_num\<close>, since \<open>id\<close> is the identity function of HOL.
  \<^verbatim>\<open>CodeSearchResultItem\<close> has fields \<^verbatim>\<open>name\<close> and \<^verbatim>\<open>html_url\<close> of its own; those of a
  repository are written \<open>Repository.name\<close> and \<open>Repository.html_url\<close>.
\<close>

record Repository =
  id_num :: int
  name :: string
  full_name :: string
  stargazers_count :: int
  html_url :: string

record CodeSearchResultItem =
  name :: string
  path :: string
  repository :: Repository
  html_url :: string

record CodeSearchResult =
  total_count :: int
  items :: "CodeSearchResultItem list"

record Node =
  nameWithOwner :: string
  stargazerCount :: int

record Edge =
  node :: Node

record Search =
  edges :: "Edge list"

record Data =
  search :: Search

record GraphQLResponse =
  data :: Data

section \<open>The outside world: requests, responses, exceptions, effects\<close>

text \<open>
  A thrown value is either an instance of \<^verbatim>\<open>Error\<close>, with its \<^verbatim>\<open>message\<close>, or some other
  value, with the text the console prints for it.
\<close>

datatype thrown = ErrorInstance string | NonError string

text \<open>
  \<^verbatim>\<open>await response.json()\<close> and the first property reads the code makes on its result
  (\<^verbatim>\<open>error.message\<close>, \<^verbatim>\<open>data.items\<close>, \<^verbatim>\<open>result.data.search.edges\<close>): either they raise
  (text that is not JSON, a property read on \<^verbatim>\<open>null\<close> or \<^verbatim>\<open>undefined\<close>), or the body has
  the interface the code declares for it, every item and every edge included. For an
  error body the parsed value is the text of \<^verbatim>\<open>error.message\<close>. A body whose list holds
  an element that is not of the declared interface is outside this model.
\<close>

datatype 'a body = Raises thrown | Parsed 'a

text \<open>
  What \<^verbatim>\<open>await fetch(...)\<close> gives: the promise rejects, or there is a response whose
  \<^verbatim>\<open>ok\<close> flag is false (its body is read as an error object) or true (its body is read
  as the declared interface).
\<close>

datatype 'a response = Rejected thrown | NotOk "string body" | Ok "'a body"

text \<open>
  The three search parameters given to \<^verbatim>\<open>URLSearchParams\<close>; the URL prefix and the headers
  are the same in every request.
\<close>

record params =
  q :: string
  per_page :: string
  page :: string

datatype effect =
    ConsoleLog string
  | ConsoleError string
  | FetchSearch params
  | FetchGraphQL string
  | SetTimeout nat

datatype search_type = Filename | Content

text \<open>
  \<^verbatim>\<open>Number.prototype.toString\<close> on a natural number, and on an integer. On an integer,
  \<open>toStringInt\<close> is what the code prints for a number of magnitude below \<open>10 ^ 21\<close>: from
  there on the code prints a number in exponent form, which \<open>toStringInt\<close> does not give.
\<close>

fun toString :: "nat \<Rightarrow> string" where
  "toString n =
     (if n < 10 then [char_of (48 + n)]
      else toString (n div 10) @ [char_of (48 + n mod 10)])"

declare toString.simps [simp del]

definition toStringInt :: "int \<Rightarrow> string" where
  "toStringInt i = (if i < 0 then ''-'' @ toString (nat (- i)) else toString (nat i))"

text \<open>\<^verbatim>\<open>Array.prototype.join\<close> on strings.\<close>

fun join :: "string \<Rightarrow> string list \<Rightarrow> string" where
  "join sep [] = []"
| "join sep [x] = x"
| "join sep (x # y # ys) = x @ sep @ join sep (y # ys)"

section \<open>enrichWithStarCount (src/main.ts, lines 108-176)\<close>

definition repoQueries :: "Repository list \<Rightarrow> string" where
  "repoQueries repos = join '' '' (map (\<lambda>repo. ''repo:'' @ full_name repo) repos)"

definition graphql_query :: "Repository list \<Rightarrow> string" where
  "graphql_query repos =
     [CHR 0x0A] @
     ''    query {'' @ [CHR 0x0A] @
     ''      search(query: '' @ [CHR 0x22] @ repoQueries repos @ [CHR 0x22] @
       '', type: REPOSITORY, first: '' @ toString (length repos) @ '') {'' @ [CHR 0x0A] @
     ''        repositoryCount'' @ [CHR 0x0A] @
     ''        edges {'' @ [CHR 0x0A] @
     ''          node {'' @ [CHR 0x0A] @
     ''            ... on Repository {'' @ [CHR 0x0A] @
     ''              nameWithOwner'' @ [CHR 0x0A] @
     ''              stargazerCount'' @ [CHR 0x0A] @
     ''            }'' @ [CHR 0x0A] @
     ''          }'' @ [CHR 0x0A] @
     ''        }'' @ [CHR 0x0A] @
     ''      }'' @ [CHR 0x0A] @
     ''    }'' @ [CHR 0x0A] @
     ''  ''"

text \<open>
  The \<^verbatim>\<open>Map<string, number>\<close> built by \<^verbatim>\<open>edges.forEach\<close>: a later edge with the same
  \<^verbatim>\<open>nameWithOwner\<close> overwrites an earlier one.
\<close>

definition starMap :: "Edge list \<Rightarrow> (string \<rightharpoonup> int)" where
  "starMap es =
     fold (\<lambda>edge m. m(nameWithOwner (node edge) \<mapsto> stargazerCount (node edge))) es Map.empty"

definition enrichRepo :: "(string \<rightharpoonup> int) \<Rightarrow> Repository \<Rightarrow> Repository" where
  "enrichRepo m repo =
     (case m (full_name repo) of
        Some stars \<Rightarrow> repo\<lparr>stargazers_count := stars\<rparr>
      | None \<Rightarrow> repo)"

text \<open>
  The body of the \<^verbatim>\<open>try\<close> block: the effects made so far, and either the value thrown
  or the value returned.
\<close>

definition enrich_try ::
  "(string \<Rightarrow> GraphQLResponse response) \<Rightarrow> Repository list \<Rightarrow>
     effect list \<times> (thrown + Repository list)" where
  "enrich_try fetch repos =
     (let query = graphql_query repos in
      case fetch query of
        Rejected e \<Rightarrow> ([FetchGraphQL query], Inl e)
      | NotOk b \<Rightarrow>
          (case b of
             Raises e \<Rightarrow> ([FetchGraphQL query], Inl e)
           | Parsed message \<Rightarrow>
               ([FetchGraphQL query, ConsoleError (''GraphQL API Error: '' @ message)],
                Inr repos))
      | Ok b \<Rightarrow>
          (case b of
             Raises e \<Rightarrow> ([FetchGraphQL query], Inl e)
           | Parsed result \<Rightarrow>
               (let es = edges (search (data result));
                    enrichedRepos = map (enrichRepo (starMap es)) repos
                in ([FetchGraphQL query,
                     ConsoleLog (''Successfully enriched '' @ toString (length es) @
                       '' repositories.'')],
                    Inr enrichedRepos))))"

definition enrich_catch :: "thrown \<Rightarrow> effect list" where
  "enrich_catch error =
     (case error of
        ErrorInstance message \<Rightarrow>
          [ConsoleError (''Failed to fetch from GraphQL API: '' @ message)]
      | NonError shown \<Rightarrow>
          [ConsoleError (''An unknown error occurred during GraphQL fetch: '' @ shown)])"

definition enrichWithStarCount ::
  "(string \<Rightarrow> GraphQLResponse response) \<Rightarrow> Repository list \<Rightarrow>
     effect list \<times> (thrown + Repository list)" where
  "enrichWithStarCount fetch repos =
     (if length repos = 0 then ([], Inr [])
      else
        (let start = [ConsoleLog ([CHR 0x0A] @ ''Fetching star counts for '' @
                        toString (length repos) @ '' repositories via GraphQL...'')]
         in case enrich_try fetch repos of
              (effs, Inr result) \<Rightarrow> (start @ effs, Inr result)
            | (effs, Inl error) \<Rightarrow> (start @ effs @ enrich_catch error, Inr repos)))"

section \<open>fetchRepositories (src/main.ts, lines 64-106)\<close>

definition search_params :: "string \<Rightarrow> search_type \<Rightarrow> nat \<Rightarrow> params" where
  "search_params searchTerm type p =
     (let query = (if type = Filename then ''filename:'' @ searchTerm else searchTerm);
          perPage = 30
      in \<lparr>q = query, per_page = toString perPage, page = toString p\<rparr>)"

text \<open>
  \<^verbatim>\<open>uniqueRepos\<close> is a \<^verbatim>\<open>Map<number, Repository>\<close>: it keeps its keys in the order of their
  first insertion, and \<^verbatim>\<open>set\<close> on a key it holds replaces the value where it is. That is
  an association list under \<^const>\<open>AList.update\<close>; \<^verbatim>\<open>uniqueRepos.values()\<close> is \<open>map snd\<close>.
\<close>

definition set_items ::
  "CodeSearchResultItem list \<Rightarrow> (int \<times> Repository) list \<Rightarrow> (int \<times> Repository) list" where
  "set_items its uniqueRepos =
     fold (\<lambda>item m. AList.update (id_num (repository item)) (repository item) m)
       its uniqueRepos"

text \<open>
  The \<^verbatim>\<open>while (page <= 3)\<close> loop from page \<open>p\<close> on: the effects it makes, and either the
  value thrown out of the function or the map when the loop is left.
\<close>

function fetch_pages ::
  "(params \<Rightarrow> CodeSearchResult response) \<Rightarrow> string \<Rightarrow> search_type \<Rightarrow> nat \<Rightarrow>
     (int \<times> Repository) list \<Rightarrow> effect list \<times> (thrown + (int \<times> Repository) list)" where
  "fetch_pages fetch searchTerm type p uniqueRepos =
     (if p \<le> 3 then
        (let prms = search_params searchTerm type p;
             start = [ConsoleLog (''Fetching page '' @ toString p @ '' for '' @ [CHR 0x22] @
                        searchTerm @ [CHR 0x22] @ ''...''),
                      FetchSearch prms]
         in case fetch prms of
              Rejected e \<Rightarrow> (start, Inl e)
            | NotOk b \<Rightarrow>
                (case b of
                   Raises e \<Rightarrow> (start, Inl e)
                 | Parsed message \<Rightarrow>
                     (start @ [ConsoleError (''API Error (page '' @ toString p @ ''): '' @
                                 message)],
                      Inr uniqueRepos))
            | Ok b \<Rightarrow>
                (case b of
                   Raises e \<Rightarrow> (start, Inl e)
                 | Parsed d \<Rightarrow>
                     (let here = start @
                            [ConsoleLog (''Page '' @ toString p @ '': Found '' @
                               toString (length (items d)) @ '' results''),
                             SetTimeout 1500]
                      in case fetch_pages fetch searchTerm type (p + 1)
                                (set_items (items d) uniqueRepos) of
                           (effs, r) \<Rightarrow> (here @ effs, r))))
      else ([], Inr uniqueRepos))"
  by pat_completeness auto
termination
  by (relation "measure (\<lambda>(fetch, searchTerm, type, p, uniqueRepos). 4 - p)") auto

declare fetch_pages.simps [simp del]

definition fetchRepositories ::
  "(params \<Rightarrow> CodeSearchResult response) \<Rightarrow> string \<Rightarrow> search_type \<Rightarrow>
     effect list \<times> (thrown + Repository list)" where
  "fetchRepositories fetch searchTerm type =
     (case fetch_pages fetch searchTerm type 1 [] of
        (effs, Inl e) \<Rightarrow> (effs, Inl e)
      | (effs, Inr uniqueRepos) \<Rightarrow> (effs, Inr (map snd uniqueRepos)))"

section \<open>The filter of main (src/main.ts, line 41)\<close>

definition filteredRepos :: "Repository list \<Rightarrow> Repository list" where
  "filteredRepos reposWithStars = filter (\<lambda>repo. stargazers_count repo \<ge> 100) reposWithStars"

section \<open>printResults (src/main.ts, lines 178-185)\<close>

text \<open>
  The library's \<^verbatim>\<open>Array.prototype.sort(compareFn)\<close>: it sorts the array it is called on,
  in place, and returns that same array. The sort is stable: \<open>a\<close> stays before a later
  \<open>b\<close> unless \<open>compareFn a b > 0\<close>. The order it computes is that of an insertion sort.
\<close>

fun insort_by :: "('a \<Rightarrow> 'a \<Rightarrow> int) \<Rightarrow> 'a \<Rightarrow> 'a list \<Rightarrow> 'a list" where
  "insort_by compareFn a [] = [a]"
| "insort_by compareFn a (b # bs) =
     (if compareFn a b \<le> 0 then a # b # bs else b # insort_by compareFn a bs)"

definition array_sort :: "('a \<Rightarrow> 'a \<Rightarrow> int) \<Rightarrow> 'a list \<Rightarrow> 'a list" where
  "array_sort compareFn xs = foldr (insort_by compareFn) xs []"

text \<open>
  Arrays are objects: a caller and a callee hold the same array through its address.
  The heap gives the elements of the array at each address.
\<close>

type_synonym heap = "nat \<Rightarrow> Repository list"

definition star_glyph :: string where
  "star_glyph = [CHR 0xC3, CHR 0xA2, CHR 0xCB, CHR 0x9C, CHR 0xE2, CHR 0x80, CHR 0xA6]"

definition report_lines :: "Repository \<Rightarrow> nat \<Rightarrow> effect list" where
  "report_lines repo i =
     [ConsoleLog (toString (i + 1) @ ''. '' @ full_name repo @ '' - '' @
        toStringInt (stargazers_count repo) @ star_glyph),
      ConsoleLog (''   URL: '' @ Repository.html_url repo)]"

definition report :: "Repository list \<Rightarrow> effect list" where
  "report rs = concat (map (\<lambda>(repo, i). report_lines repo i) (zip rs [0..<length rs]))"

definition printResults :: "heap \<Rightarrow> nat \<Rightarrow> heap \<times> effect list" where
  "printResults h repos =
     (let h' = h(repos := array_sort (\<lambda>a b. stargazers_count b - stargazers_count a) (h repos))
      in (h', report (h' repos)))"

section \<open>Notions used to state the properties\<close>

text \<open>
  An enrichment response is a failure unless it is a success whose body has the
  declared shape: the request is rejected, the status is not a success, or reading
  the body raises.
\<close>

definition enrichment_fails :: "GraphQLResponse response \<Rightarrow> bool" where
  "enrichment_fails r = (case r of Ok (Parsed result) \<Rightarrow> False | _ \<Rightarrow> True)"

text \<open>The items of page \<open>p\<close>, when its response is a success with a readable body.\<close>

definition page_items ::
  "(params \<Rightarrow> CodeSearchResult response) \<Rightarrow> string \<Rightarrow> search_type \<Rightarrow> nat \<Rightarrow>
     CodeSearchResultItem list option" where
  "page_items fetch searchTerm type p =
     (case fetch (search_params searchTerm type p) of
        Ok (Parsed d) \<Rightarrow> Some (items d)
      | _ \<Rightarrow> None)"

fun items_until_failure :: "(nat \<Rightarrow> 'a list option) \<Rightarrow> nat list \<Rightarrow> 'a list" where
  "items_until_failure f [] = []"
| "items_until_failure f (p # ps) =
     (case f p of None \<Rightarrow> [] | Some its \<Rightarrow> its @ items_until_failure f ps)"

text \<open>
  The items a run processes: those of pages 1, 2 and 3 in order, up to the first page
  that is not a success with a readable body.
\<close>

definition processed_items ::
  "(params \<Rightarrow> CodeSearchResult response) \<Rightarrow> string \<Rightarrow> search_type \<Rightarrow>
     CodeSearchResultItem list" where
  "processed_items fetch searchTerm type =
     items_until_failure (page_items fetch searchTerm type) [1, 2, 3]"

text \<open>The repository of the last item of a sequence that carries the id \<open>k\<close>.\<close>

definition last_seen :: "int \<Rightarrow> CodeSearchResultItem list \<Rightarrow> Repository option" where
  "last_seen k its =
     map_option repository (find (\<lambda>item. id_num (repository item) = k) (rev its))"

text \<open>The response of the first page, among those given, that is not a success with a
  readable body.\<close>

fun first_failure :: "(nat \<Rightarrow> 'a response) \<Rightarrow> nat list \<Rightarrow> 'a response option" where
  "first_failure f [] = None"
| "first_failure f (p # ps) =
     (case f p of
        Ok (Parsed d) \<Rightarrow> first_failure f ps
      | r \<Rightarrow> Some r)"

fun is_request :: "effect \<Rightarrow> bool" where
  "is_request (FetchSearch prms) = True"
| "is_request e = False"

fun is_delay :: "effect \<Rightarrow> bool" where
  "is_delay (SetTimeout ms) = True"
| "is_delay e = False"

text \<open>A delay occurs among the effects that follow the last page request.\<close>

definition delay_after_last_request :: "effect list \<Rightarrow> bool" where
  "delay_after_last_request effs =
     list_ex is_delay (takeWhile (\<lambda>e. \<not> is_request e) (rev effs))"

text \<open>
  The requests and delays of a run over the pages given: each page is requested, and a
  page that succeeds is followed by the delay and then by the next page.
\<close>

fun schedule :: "(nat \<Rightarrow> bool) \<Rightarrow> (nat \<Rightarrow> params) \<Rightarrow> nat list \<Rightarrow> effect list" where
  "schedule ok prm [] = []"
| "schedule ok prm (p # ps) =
     FetchSearch (prm p) # (if ok p then SetTimeout 1500 # schedule ok prm ps else [])"

section \<open>Example inputs\<close>

definition repo_a :: Repository where
  "repo_a = \<lparr>id_num = 1, name = ''a'', full_name = ''a/a'', stargazers_count = 5,
              html_url = ''https://github.com/a/a''\<rparr>"

definition repo_b :: Repository where
  "repo_b = \<lparr>id_num = 2, name = ''b'', full_name = ''b/b'', stargazers_count = 5,
              html_url = ''https://github.com/b/b''\<rparr>"

definition repo_50 :: Repository where
  "repo_50 = \<lparr>id_num = 10, name = ''p'', full_name = ''o/p'', stargazers_count = 50,
               html_url = ''https://github.com/o/p''\<rparr>"

definition repo_200 :: Repository where
  "repo_200 = \<lparr>id_num = 11, name = ''q'', full_name = ''o/q'', stargazers_count = 200,
                html_url = ''https://github.com/o/q''\<rparr>"

definition repo_200' :: Repository where
  "repo_200' = \<lparr>id_num = 12, name = ''r'', full_name = ''o/r'', stargazers_count = 200,
                 html_url = ''https://github.com/o/r''\<rparr>"

definition repo_10 :: Repository where
  "repo_10 = \<lparr>id_num = 13, name = ''s'', full_name = ''o/s'', stargazers_count = 10,
               html_url = ''https://github.com/o/s''\<rparr>"

definition item_of :: "Repository \<Rightarrow> CodeSearchResultItem" where
  "item_of r = \<lparr>name = ''main.ts'', path = ''src/main.ts'', repository = r,
                html_url = ''https://github.com/x''\<rparr>"

text \<open>Three items on one page; the first and the third carry the same id.\<close>

definition items_aba :: "CodeSearchResultItem list" where
  "items_aba = [item_of repo_a, item_of repo_b, item_of (repo_a\<lparr>stargazers_count := 7\<rparr>)]"

text \<open>Every page is a success with no items.\<close>

definition fetch_all_ok :: "params \<Rightarrow> CodeSearchResult response" where
  "fetch_all_ok prms = Ok (Parsed \<lparr>total_count = 0, items = []\<rparr>)"

text \<open>Page 1 is a success with one item; the body of page 2 is not JSON.\<close>

definition fetch_page2_malformed :: "params \<Rightarrow> CodeSearchResult response" where
  "fetch_page2_malformed prms =
     (if page prms = ''1'' then Ok (Parsed \<lparr>total_count = 1, items = [item_of repo_a]\<rparr>)
      else Ok (Raises (ErrorInstance ''Unexpected token < in JSON at position 0'')))"

text \<open>Page 1 is a success with three items; page 2 is refused with a message.\<close>

definition fetch_page2_forbidden :: "params \<Rightarrow> CodeSearchResult response" where
  "fetch_page2_forbidden prms =
     (if page prms = ''1'' then Ok (Parsed \<lparr>total_count = 3, items = items_aba\<rparr>)
      else NotOk (Parsed ''API rate limit exceeded''))"

definition graphql_unauthorized :: "string \<Rightarrow> GraphQLResponse response" where
  "graphql_unauthorized query = NotOk (Parsed ''Bad credentials'')"

text \<open>The enrichment response knows \<^verbatim>\<open>a/a\<close> only, with 42 stars.\<close>

definition graphql_only_a :: "string \<Rightarrow> GraphQLResponse response" where
  "graphql_only_a query =
     Ok (Parsed \<lparr>data = \<lparr>search = \<lparr>edges =
       [\<lparr>node = \<lparr>nameWithOwner = ''a/a'', stargazerCount = 42\<rparr>\<rparr>]\<rparr>\<rparr>\<rparr>)"

text \<open>One array, at address 0, with the star counts 50, 200, 200, 10.\<close>

definition heap_example :: heap where
  "heap_example a = (if a = 0 then [repo_50, repo_200, repo_200', repo_10] else [])"

section \<open>Enrichment\<close>

lemma enrichWithStarCount_result:
  "snd (enrichWithStarCount fetch repos) =
     Inr (case fetch (graphql_query repos) of
            Ok (Parsed result) \<Rightarrow>
              map (enrichRepo (starMap (edges (search (data result))))) repos
          | _ \<Rightarrow> repos)"
  by (cases repos)
     (simp_all add: enrichWithStarCount_def enrich_try_def Let_def
        split: response.split body.split prod.split sum.split)

lemma enrichRepo_fields:
  "id_num (enrichRepo m r) = id_num r"
  "Repository.name (enrichRepo m r) = Repository.name r"
  "full_name (enrichRepo m r) = full_name r"
  "Repository.html_url (enrichRepo m r) = Repository.html_url r"
  by (simp_all add: enrichRepo_def split: option.split)

lemma find_append_cases:
  "find P (xs @ ys) = (case find P xs of None \<Rightarrow> find P ys | Some x \<Rightarrow> Some x)"
  by (induction xs) simp_all

lemma starMap_fold:
  "fold (\<lambda>edge m. m(nameWithOwner (node edge) \<mapsto> stargazerCount (node edge))) es m0 k =
     (case find (\<lambda>e. nameWithOwner (node e) = k) (rev es) of
        Some e \<Rightarrow> Some (stargazerCount (node e))
      | None \<Rightarrow> m0 k)"
  by (induction es arbitrary: m0) (auto simp: find_append_cases split: option.split)

lemma starMap_last:
  "starMap es k =
     map_option (\<lambda>e. stargazerCount (node e))
       (find (\<lambda>e. nameWithOwner (node e) = k) (rev es))"
  by (simp add: starMap_def starMap_fold split: option.split)

text \<open>
  C1. When the enrichment of a non-empty sequence of records meets a failure (the request
  is rejected, the status is not a success, or reading the body raises),
  \<open>enrichWithStarCount\<close> returns the records it was given, the same values in the same
  order, and throws nothing.
\<close>

theorem enrich_failure_returns_input:
  assumes "repos \<noteq> []"
    and "enrichment_fails (fetch (graphql_query repos))"
  shows "snd (enrichWithStarCount fetch repos) = Inr repos"
  using assms(2) unfolding enrichWithStarCount_result
  by (auto simp: enrichment_fails_def split: response.splits body.splits)

theorem enrich_failure_returns_input_witness:
  "[repo_a, repo_b] \<noteq> [] \<and>
   enrichment_fails (graphql_unauthorized (graphql_query [repo_a, repo_b])) \<and>
   snd (enrichWithStarCount graphql_unauthorized [repo_a, repo_b]) = Inr [repo_a, repo_b]"
proof -
  have ne: "[repo_a, repo_b] \<noteq> []" by simp
  have f: "enrichment_fails (graphql_unauthorized (graphql_query [repo_a, repo_b]))"
    by (simp add: enrichment_fails_def graphql_unauthorized_def)
  from ne f
    enrich_failure_returns_input
      [where repos = "[repo_a, repo_b]" and fetch = graphql_unauthorized, OF ne f]
  show ?thesis by simp
qed

text \<open>
  C3. On a successful enrichment response, the output pairs with the input position by
  position: a record whose \<open>full_name\<close> is not a key of the lookup is the input record
  itself, so its star count is the one it had; a record whose \<open>full_name\<close> is a key has
  its star count replaced by the value looked up. The lookup holds, for each name, the
  count of the last edge of the response with that name.
\<close>

theorem enrich_lookup:
  assumes "fetch (graphql_query repos) = Ok (Parsed result)"
  shows "\<exists>out. snd (enrichWithStarCount fetch repos) = Inr out \<and>
           list_all2
             (\<lambda>repo repo'.
                case starMap (edges (search (data result))) (full_name repo) of
                  None \<Rightarrow> repo' = repo
                | Some stars \<Rightarrow> repo' = repo\<lparr>stargazers_count := stars\<rparr>)
             repos out \<and>
           (\<forall>k. starMap (edges (search (data result))) k =
                  map_option (\<lambda>e. stargazerCount (node e))
                    (find (\<lambda>e. nameWithOwner (node e) = k)
                       (rev (edges (search (data result))))))"
  unfolding enrichWithStarCount_result using assms
  by (auto simp: enrichRepo_def starMap_last list_all2_conv_all_nth split: option.split)

theorem enrich_lookup_witness:
  "graphql_only_a (graphql_query [repo_a, repo_b]) =
     Ok (Parsed \<lparr>data = \<lparr>search = \<lparr>edges =
       [\<lparr>node = \<lparr>nameWithOwner = ''a/a'', stargazerCount = 42\<rparr>\<rparr>]\<rparr>\<rparr>\<rparr>) \<and>
   snd (enrichWithStarCount graphql_only_a [repo_a, repo_b]) =
     Inr [repo_a\<lparr>stargazers_count := 42\<rparr>, repo_b]"
proof -
  have f: "graphql_only_a (graphql_query [repo_a, repo_b]) =
     Ok (Parsed \<lparr>data = \<lparr>search = \<lparr>edges =
       [\<lparr>node = \<lparr>nameWithOwner = ''a/a'', stargazerCount = 42\<rparr>\<rparr>]\<rparr>\<rparr>\<rparr>)"
    by (simp add: graphql_only_a_def)
  from enrich_lookup [where fetch = graphql_only_a and repos = "[repo_a, repo_b]", OF f]
  obtain out where out: "snd (enrichWithStarCount graphql_only_a [repo_a, repo_b]) = Inr out"
    and l: "list_all2
             (\<lambda>repo repo'.
                case starMap [\<lparr>node = \<lparr>nameWithOwner = ''a/a'', stargazerCount = 42\<rparr>\<rparr>]
                       (full_name repo) of
                  None \<Rightarrow> repo' = repo
                | Some stars \<Rightarrow> repo' = repo\<lparr>stargazers_count := stars\<rparr>)
             [repo_a, repo_b] out"
    by auto
  from l have "out = [repo_a\<lparr>stargazers_count := 42\<rparr>, repo_b]"
    by (auto simp: list_all2_Cons1 starMap_def repo_a_def repo_b_def)
  with f out show ?thesis by simp
qed

text \<open>
  C4. On every input, the empty one included, and whatever the response,
  \<open>enrichWithStarCount\<close> returns a sequence of the length of its input that has, at each
  position, the id of the input record at that position; so no id that is absent from
  the input occurs in the output.
\<close>

theorem enrich_same_length_and_ids:
  "\<exists>out. snd (enrichWithStarCount fetch repos) = Inr out \<and>
         length out = length repos \<and>
         map id_num out = map id_num repos \<and>
         set (map id_num out) \<subseteq> set (map id_num repos)"
  unfolding enrichWithStarCount_result
  by (auto simp: enrichRepo_fields split: response.split body.split)

theorem enrich_same_length_and_ids_witness:
  "snd (enrichWithStarCount graphql_only_a []) = Inr [] \<and>
   (\<exists>out. snd (enrichWithStarCount graphql_only_a [repo_a, repo_b]) = Inr out \<and>
          length out = 2 \<and> map id_num out = [1, 2])"
  using enrich_same_length_and_ids [of graphql_only_a "[]"]
    enrich_same_length_and_ids [of graphql_only_a "[repo_a, repo_b]"]
  by (auto simp: repo_a_def repo_b_def)

text \<open>
  C9. Whatever the response, each record that \<open>enrichWithStarCount\<close> returns has the id,
  name, full name and URL of the input record at its position: it differs from it in
  the star count at most. The output has one record for each input record and no other.
\<close>

theorem enrich_changes_star_count_only:
  "\<exists>out. snd (enrichWithStarCount fetch repos) = Inr out \<and>
         list_all2
           (\<lambda>repo repo'.
              id_num repo' = id_num repo \<and>
              Repository.name repo' = Repository.name repo \<and>
              full_name repo' = full_name repo \<and>
              Repository.html_url repo' = Repository.html_url repo \<and>
              repo' = repo\<lparr>stargazers_count := stargazers_count repo'\<rparr>)
           repos out"
  unfolding enrichWithStarCount_result
  by (auto simp: enrichRepo_fields enrichRepo_def list_all2_conv_all_nth
        split: response.split body.split option.split)

theorem enrich_changes_star_count_only_witness:
  "\<exists>out. snd (enrichWithStarCount graphql_only_a [repo_a]) = Inr out \<and>
         list_all2 (\<lambda>repo repo'. full_name repo' = full_name repo) [repo_a] out"
  using enrich_changes_star_count_only [of graphql_only_a "[repo_a]"]
  by (auto simp: list_all2_Cons1)

section \<open>Discovery\<close>

lemma set_items_append: "set_items (xs @ ys) m = set_items ys (set_items xs m)"
  by (simp add: set_items_def)

lemma map_of_set_items:
  "map_of (set_items its m) k =
     (case last_seen k its of Some r \<Rightarrow> Some r | None \<Rightarrow> map_of m k)"
  by (induction its arbitrary: m)
     (auto simp: set_items_def last_seen_def find_append_cases update_conv'
        split: option.split)

lemma distinct_set_items:
  "distinct (map fst m) \<Longrightarrow> distinct (map fst (set_items its m))"
  by (induction its arbitrary: m) (simp_all add: set_items_def distinct_update)

lemma keys_set_items:
  "fst ` set (set_items its m) =
     fst ` set m \<union> (\<lambda>item. id_num (repository item)) ` set its"
  by (induction its arbitrary: m) (auto simp: set_items_def dom_update)

lemma length_set_items_empty:
  "length (set_items its []) = card ((\<lambda>item. id_num (repository item)) ` set its)"
proof -
  have d: "distinct (map fst (set_items its []))"
    by (rule distinct_set_items) simp
  have "length (set_items its []) = length (map fst (set_items its []))"
    by simp
  also have "\<dots> = card (set (map fst (set_items its [])))"
    using d by (simp only: distinct_card)
  also have "\<dots> = card ((\<lambda>item. id_num (repository item)) ` set its)"
    using keys_set_items [of its "[]"] by simp
  finally show ?thesis .
qed

lemma upt_1_4: "[1..<4] = [1, 2, 3::nat]"
  by (simp add: upt_conv_Cons)

text \<open>
  What the loop gives from page \<open>p\<close> on: the first failing page decides between a throw
  and a return, and a return gives the map with the items of the pages before it.
\<close>

lemma fetch_pages_outcome:
  "p \<le> 4 \<Longrightarrow>
   snd (fetch_pages fetch searchTerm type p m) =
     (case first_failure (\<lambda>p. fetch (search_params searchTerm type p)) [p..<4] of
        Some (Rejected e) \<Rightarrow> Inl e
      | Some (NotOk (Raises e)) \<Rightarrow> Inl e
      | Some (Ok (Raises e)) \<Rightarrow> Inl e
      | _ \<Rightarrow> Inr (set_items
                   (items_until_failure (page_items fetch searchTerm type) [p..<4]) m))"
proof (induction fetch searchTerm type p m rule: fetch_pages.induct)
  case (1 fetch searchTerm type p uniqueRepos)
  show ?case
  proof (cases "p \<le> 3")
    case False
    with "1.prems" show ?thesis
      by (simp add: fetch_pages.simps set_items_def)
  next
    case True
    then have upt: "[p..<4] = p # [p + 1..<4]"
      by (simp add: upt_conv_Cons)
    show ?thesis
    proof (cases "fetch (search_params searchTerm type p)")
      case (Rejected e)
      with True show ?thesis
        by (simp add: fetch_pages.simps [of fetch searchTerm type p] upt Let_def)
    next
      case (NotOk b)
      with True show ?thesis
        by (cases b)
           (simp_all add: fetch_pages.simps [of fetch searchTerm type p] upt Let_def
              page_items_def set_items_def)
    next
      case (Ok b)
      show ?thesis
      proof (cases b)
        case (Raises e)
        with True Ok show ?thesis
          by (simp add: fetch_pages.simps [of fetch searchTerm type p] upt Let_def)
      next
        case (Parsed d)
        with Ok have f: "fetch (search_params searchTerm type p) = Ok (Parsed d)"
          by simp
        have step: "snd (fetch_pages fetch searchTerm type p uniqueRepos) =
            snd (fetch_pages fetch searchTerm type (p + 1) (set_items (items d) uniqueRepos))"
          using True f
          by (simp add: fetch_pages.simps [of fetch searchTerm type p] Let_def
                split: prod.split)
        from True have "p + 1 \<le> 4" by simp
        note IH = "1.IH" [OF True refl refl f refl refl this]
        have pi: "page_items fetch searchTerm type p = Some (items d)"
          by (simp add: page_items_def f)
        show ?thesis
          unfolding step IH using f pi
          by (simp add: upt set_items_append
                split: option.split response.split body.split)
      qed
    qed
  qed
qed

lemma fetch_pages_1_outcome:
  "snd (fetch_pages fetch searchTerm type 1 m) =
     (case first_failure (\<lambda>p. fetch (search_params searchTerm type p)) [1, 2, 3] of
        Some (Rejected e) \<Rightarrow> Inl e
      | Some (NotOk (Raises e)) \<Rightarrow> Inl e
      | Some (Ok (Raises e)) \<Rightarrow> Inl e
      | _ \<Rightarrow> Inr (set_items (processed_items fetch searchTerm type) m))"
proof -
  have le: "(1::nat) \<le> 4" by simp
  show ?thesis
    using fetch_pages_outcome [OF le, of fetch searchTerm type m]
    by (simp only: upt_1_4 processed_items_def)
qed

lemma fetchRepositories_snd:
  "snd (fetchRepositories fetch searchTerm type) =
     map_sum (\<lambda>e. e) (map snd) (snd (fetch_pages fetch searchTerm type 1 []))"
  by (simp add: fetchRepositories_def split: prod.split sum.split)

lemma fetchRepositories_fst:
  "fst (fetchRepositories fetch searchTerm type) =
     fst (fetch_pages fetch searchTerm type 1 [])"
  by (simp add: fetchRepositories_def split: prod.split sum.split)

text \<open>
  C2, as the code has it. The outcome of \<open>fetchRepositories\<close> is decided by the first page
  that is not a success with a readable body. When there is none, or when that page is a
  non-success response whose error body can be read, pagination stops there and the
  function returns the records of all the pages before it, throwing nothing. When the
  request of that page is rejected, or its body cannot be read (on a success or on a
  non-success response), the exception leaves \<open>fetchRepositories\<close>: its caller receives
  the thrown value and no records.
\<close>

theorem page_failure_outcome:
  "snd (fetchRepositories fetch searchTerm type) =
     (case first_failure (\<lambda>p. fetch (search_params searchTerm type p)) [1, 2, 3] of
        None \<Rightarrow> Inr (map snd (set_items (processed_items fetch searchTerm type) []))
      | Some (Rejected e) \<Rightarrow> Inl e
      | Some (NotOk (Raises e)) \<Rightarrow> Inl e
      | Some (NotOk (Parsed message)) \<Rightarrow>
          Inr (map snd (set_items (processed_items fetch searchTerm type) []))
      | Some (Ok (Raises e)) \<Rightarrow> Inl e
      | Some (Ok (Parsed d)) \<Rightarrow>
          Inr (map snd (set_items (processed_items fetch searchTerm type) [])))"
  unfolding fetchRepositories_snd fetch_pages_1_outcome
  by (simp split: option.split response.split body.split)

theorem page_failure_outcome_witness:
  "snd (fetchRepositories fetch_page2_forbidden ''x'' Content) =
     Inr [repo_a\<lparr>stargazers_count := 7\<rparr>, repo_b]"
proof -
  have "first_failure (\<lambda>p. fetch_page2_forbidden (search_params ''x'' Content p)) [1, 2, 3] =
          Some (NotOk (Parsed ''API rate limit exceeded''))"
    by code_simp
  moreover
  have "map snd (set_items (processed_items fetch_page2_forbidden ''x'' Content) []) =
          [repo_a\<lparr>stargazers_count := 7\<rparr>, repo_b]"
    by code_simp
  ultimately show ?thesis
    using page_failure_outcome [of fetch_page2_forbidden "''x''" Content] by simp
qed

text \<open>
  C2, as the claim has it, fails: when page 1 succeeds with one record and the body of
  page 2 is not JSON, \<open>fetchRepositories\<close> throws the parse error to its caller, and the
  record of page 1 is not returned.
\<close>

theorem malformed_page_throws:
  "snd (fetchRepositories fetch_page2_malformed ''x'' Content) =
     Inl (ErrorInstance ''Unexpected token < in JSON at position 0'')"
  by code_simp

text \<open>
  C5. After the items \<open>its\<close> have been inserted, the deduplication map has as many entries
  as there are distinct repository ids among the items, holds each id once, and gives
  for each id the repository of the last item that carries it. When \<open>fetchRepositories\<close>
  returns, the map it built is the one of the items of the pages it processed, and the
  records returned are the values of that map.
\<close>

theorem dedup_size_and_last_seen:
  "length (set_items its []) = card ((\<lambda>item. id_num (repository item)) ` set its) \<and>
   distinct (map fst (set_items its [])) \<and>
   map_of (set_items its []) k = last_seen k its \<and>
   (snd (fetchRepositories fetch searchTerm type) = Inr repos \<longrightarrow>
      snd (fetch_pages fetch searchTerm type 1 []) =
        Inr (set_items (processed_items fetch searchTerm type) []) \<and>
      repos = map snd (set_items (processed_items fetch searchTerm type) []))"
proof -
  have a: "length (set_items its []) = card ((\<lambda>item. id_num (repository item)) ` set its)"
    by (rule length_set_items_empty)
  have b: "distinct (map fst (set_items its []))"
    by (rule distinct_set_items) simp
  have c: "map_of (set_items its []) k = last_seen k its"
    by (simp add: map_of_set_items split: option.split)
  have d: "snd (fetch_pages fetch searchTerm type 1 []) =
             Inr (set_items (processed_items fetch searchTerm type) []) \<and>
           repos = map snd (set_items (processed_items fetch searchTerm type) [])"
    if r: "snd (fetchRepositories fetch searchTerm type) = Inr repos"
  proof -
    from r obtain m where m: "snd (fetch_pages fetch searchTerm type 1 []) = Inr m"
      and repos: "repos = map snd m"
      by (auto simp: fetchRepositories_def split: prod.splits sum.splits)
    from m have "m = set_items (processed_items fetch searchTerm type) []"
      unfolding fetch_pages_1_outcome
      by (auto split: option.splits response.splits body.splits)
    with m repos show ?thesis by simp
  qed
  from a b c d show ?thesis by blast
qed

theorem dedup_size_and_last_seen_witness:
  "snd (fetchRepositories fetch_page2_forbidden ''x'' Content) =
     Inr [repo_a\<lparr>stargazers_count := 7\<rparr>, repo_b] \<and>
   length (set_items items_aba []) = 2 \<and>
   map_of (set_items items_aba []) 1 = Some (repo_a\<lparr>stargazers_count := 7\<rparr>) \<and>
   [repo_a\<lparr>stargazers_count := 7\<rparr>, repo_b] =
     map snd (set_items (processed_items fetch_page2_forbidden ''x'' Content) [])"
proof -
  have h: "snd (fetchRepositories fetch_page2_forbidden ''x'' Content) =
             Inr [repo_a\<lparr>stargazers_count := 7\<rparr>, repo_b]"
    by code_simp
  have c: "length (set_items items_aba []) = 2"
    by code_simp
  have l: "last_seen 1 items_aba = Some (repo_a\<lparr>stargazers_count := 7\<rparr>)"
    by code_simp
  from h c l
    dedup_size_and_last_seen [of items_aba 1 fetch_page2_forbidden "''x''" Content
      "[repo_a\<lparr>stargazers_count := 7\<rparr>, repo_b]"]
  show ?thesis by simp
qed

section \<open>The inter-page delay\<close>

lemma fetch_pages_schedule:
  "p \<le> 4 \<Longrightarrow>
   filter (\<lambda>e. is_request e \<or> is_delay e) (fst (fetch_pages fetch searchTerm type p m)) =
     schedule (\<lambda>p. page_items fetch searchTerm type p \<noteq> None)
       (search_params searchTerm type) [p..<4]"
proof (induction fetch searchTerm type p m rule: fetch_pages.induct)
  case (1 fetch searchTerm type p uniqueRepos)
  show ?case
  proof (cases "p \<le> 3")
    case False
    with "1.prems" show ?thesis
      by (simp add: fetch_pages.simps)
  next
    case True
    then have upt: "[p..<4] = p # [p + 1..<4]"
      by (simp add: upt_conv_Cons)
    show ?thesis
    proof (cases "fetch (search_params searchTerm type p)")
      case (Rejected e)
      with True show ?thesis
        by (simp add: fetch_pages.simps [of fetch searchTerm type p] upt Let_def
              page_items_def)
    next
      case (NotOk b)
      with True show ?thesis
        by (cases b)
           (simp_all add: fetch_pages.simps [of fetch searchTerm type p] upt Let_def
              page_items_def)
    next
      case (Ok b)
      show ?thesis
      proof (cases b)
        case (Raises e)
        with True Ok show ?thesis
          by (simp add: fetch_pages.simps [of fetch searchTerm type p] upt Let_def
                page_items_def)
      next
        case (Parsed d)
        with Ok have f: "fetch (search_params searchTerm type p) = Ok (Parsed d)"
          by simp
        from True have "p + 1 \<le> 4" by simp
        note IH = "1.IH" [OF True refl refl f refl refl this]
        show ?thesis
          using True f IH
          by (simp add: fetch_pages.simps [of fetch searchTerm type p] upt Let_def
                page_items_def case_prod_beta)
      qed
    qed
  qed
qed

lemma fetch_pages_1_schedule:
  "filter (\<lambda>e. is_request e \<or> is_delay e) (fst (fetch_pages fetch searchTerm type 1 m)) =
     schedule (\<lambda>p. page_items fetch searchTerm type p \<noteq> None)
       (search_params searchTerm type) [1, 2, 3]"
proof -
  have le: "(1::nat) \<le> 4" by simp
  show ?thesis
    using fetch_pages_schedule [OF le, of fetch searchTerm type m]
    by (simp only: upt_1_4)
qed

lemma delay_after_last_request_filter:
  "delay_after_last_request (filter (\<lambda>e. is_request e \<or> is_delay e) effs) =
     delay_after_last_request effs"
proof -
  have "list_ex is_delay
          (takeWhile (\<lambda>e. \<not> is_request e) (filter (\<lambda>e. is_request e \<or> is_delay e) xs)) =
        list_ex is_delay (takeWhile (\<lambda>e. \<not> is_request e) xs)" for xs
    by (induction xs) auto
  then show ?thesis
    by (simp add: delay_after_last_request_def rev_filter)
qed

text \<open>
  C6, as the code has it. The page requests and delays of a run are, in order: the
  request of page 1 and, after each page that is processed successfully, one delay of
  1500 ms followed (up to page 3) by the request of the next page. So every request
  after the first comes right after a delay, and a delay follows the last page request
  exactly when that page is the third and all three pages succeeded; no delay follows a
  page that fails.
\<close>

theorem delay_follows_every_processed_page:
  "filter (\<lambda>e. is_request e \<or> is_delay e) (fst (fetchRepositories fetch searchTerm type)) =
     schedule (\<lambda>p. page_items fetch searchTerm type p \<noteq> None)
       (search_params searchTerm type) [1, 2, 3] \<and>
   delay_after_last_request (fst (fetchRepositories fetch searchTerm type)) =
     (page_items fetch searchTerm type 1 \<noteq> None \<and>
      page_items fetch searchTerm type 2 \<noteq> None \<and>
      page_items fetch searchTerm type 3 \<noteq> None)"
proof -
  let ?effs = "fst (fetchRepositories fetch searchTerm type)"
  let ?ok = "\<lambda>p. page_items fetch searchTerm type p \<noteq> None"
  have s: "filter (\<lambda>e. is_request e \<or> is_delay e) ?effs =
             schedule ?ok (search_params searchTerm type) [1, 2, 3]"
    unfolding fetchRepositories_fst by (rule fetch_pages_1_schedule)
  have "delay_after_last_request ?effs =
          delay_after_last_request (schedule ?ok (search_params searchTerm type) [1, 2, 3])"
    using delay_after_last_request_filter [of ?effs] s by simp
  also have "\<dots> = (?ok 1 \<and> ?ok 2 \<and> ?ok 3)"
    by (cases "?ok 1"; cases "?ok 2"; cases "?ok 3")
       (simp_all add: delay_after_last_request_def)
  finally show ?thesis using s by simp
qed

theorem delay_follows_every_processed_page_witness:
  "filter (\<lambda>e. is_request e \<or> is_delay e)
     (fst (fetchRepositories fetch_page2_forbidden ''x'' Content)) =
     [FetchSearch \<lparr>q = ''x'', per_page = ''30'', page = ''1''\<rparr>, SetTimeout 1500,
      FetchSearch \<lparr>q = ''x'', per_page = ''30'', page = ''2''\<rparr>] \<and>
   \<not> delay_after_last_request (fst (fetchRepositories fetch_page2_forbidden ''x'' Content))"
proof -
  have "schedule (\<lambda>p. page_items fetch_page2_forbidden ''x'' Content p \<noteq> None)
          (search_params ''x'' Content) [1, 2, 3] =
        [FetchSearch \<lparr>q = ''x'', per_page = ''30'', page = ''1''\<rparr>, SetTimeout 1500,
         FetchSearch \<lparr>q = ''x'', per_page = ''30'', page = ''2''\<rparr>]"
    by code_simp
  moreover have "page_items fetch_page2_forbidden ''x'' Content 2 = None"
    by code_simp
  ultimately show ?thesis
    using delay_follows_every_processed_page [of fetch_page2_forbidden "''x''" Content]
    by simp
qed

text \<open>
  C6, as the claim has it, fails: when all three pages succeed, the run makes its last
  page request for page 3 and then waits 1500 ms once more before it returns.
\<close>

theorem delay_after_third_page:
  "delay_after_last_request (fst (fetchRepositories fetch_all_ok ''x'' Content))"
  by code_simp

section \<open>Filter and report\<close>

text \<open>
  C7. The filter keeps exactly the records with at least 100 stars, each as often as it
  occurs and in the order of the input: a record with exactly 100 stars passes, a record
  with 99 stars does not.
\<close>

theorem filter_threshold:
  "mset (filteredRepos rs) = filter_mset (\<lambda>r. stargazers_count r \<ge> 100) (mset rs) \<and>
   subseq (filteredRepos rs) rs \<and>
   (r \<in> set (filteredRepos rs) \<longleftrightarrow> r \<in> set rs \<and> stargazers_count r \<ge> 100) \<and>
   filteredRepos [r\<lparr>stargazers_count := 100\<rparr>] = [r\<lparr>stargazers_count := 100\<rparr>] \<and>
   filteredRepos [r\<lparr>stargazers_count := 99\<rparr>] = []"
  by (simp add: filteredRepos_def)

theorem filter_threshold_witness:
  "filteredRepos [repo_50, repo_200, repo_a\<lparr>stargazers_count := 100\<rparr>,
                  repo_a\<lparr>stargazers_count := 99\<rparr>, repo_200'] =
     [repo_200, repo_a\<lparr>stargazers_count := 100\<rparr>, repo_200']"
proof -
  let ?rs = "[repo_50, repo_200, repo_a\<lparr>stargazers_count := 100\<rparr>,
              repo_a\<lparr>stargazers_count := 99\<rparr>, repo_200']"
  have "filter (\<lambda>r. r \<in> set (filteredRepos ?rs)) ?rs =
          [repo_200, repo_a\<lparr>stargazers_count := 100\<rparr>, repo_200']"
    unfolding filter_threshold [THEN conjunct2, THEN conjunct2, THEN conjunct1]
    by (simp add: repo_50_def repo_200_def repo_200'_def repo_a_def)
  moreover have "filter (\<lambda>r. r \<in> set (filteredRepos ?rs)) ?rs = filteredRepos ?rs"
    by (simp add: filteredRepos_def repo_50_def repo_200_def repo_200'_def repo_a_def)
  ultimately show ?thesis by simp
qed

lemma insort_by_stars:
  "insort_by (\<lambda>a b. stargazers_count b - stargazers_count a) x xs =
     insort_key (\<lambda>r. - stargazers_count r) x xs"
  by (induction xs) simp_all

lemma array_sort_stars:
  "array_sort (\<lambda>a b. stargazers_count b - stargazers_count a) xs =
     sort_key (\<lambda>r. - stargazers_count r) xs"
  by (induction xs) (simp_all add: array_sort_def insort_by_stars)

lemma sorted_desc_sort_key:
  "sorted_wrt (\<lambda>a b. stargazers_count a \<ge> stargazers_count b)
     (sort_key (\<lambda>r. - stargazers_count r) xs)"
proof -
  have "sorted (map (\<lambda>r. - stargazers_count r) (sort_key (\<lambda>r. - stargazers_count r) xs))"
    by (rule sorted_sort_key)
  then show ?thesis by (simp add: sorted_map)
qed





text \<open>
  C10. \<open>printResults\<close> sorts the array it is given where it lies: after the call, the
  caller's array holds the same records by descending star count (in the stable order),
  and no other array of the heap has changed.
\<close>

theorem printResults_sorts_in_place:
  "fst (printResults h repos) =
     h(repos := sort_key (\<lambda>r. - stargazers_count r) (h repos)) \<and>
   sorted_wrt (\<lambda>a b. stargazers_count a \<ge> stargazers_count b)
     (fst (printResults h repos) repos) \<and>
   mset (fst (printResults h repos) repos) = mset (h repos)"
  by (simp add: printResults_def array_sort_stars sorted_desc_sort_key)

theorem printResults_sorts_in_place_witness:
  "fst (printResults heap_example 0) 0 = [repo_200, repo_200', repo_50, repo_10] \<and>
   fst (printResults heap_example 0) 0 \<noteq> heap_example 0 \<and>
   fst (printResults heap_example 0) 1 = heap_example 1"
proof -
  have "sort_key (\<lambda>r. - stargazers_count r) (heap_example 0) =
          [repo_200, repo_200', repo_50, repo_10]"
    by (simp add: heap_example_def repo_50_def repo_200_def repo_200'_def repo_10_def)
  moreover have "heap_example 0 \<noteq> [repo_200, repo_200', repo_50, repo_10]"
    by (simp add: heap_example_def repo_50_def repo_200_def repo_200'_def repo_10_def)
  ultimately show ?thesis
    using printResults_sorts_in_place [of heap_example 0] by simp
qed

end
